theory Spec2Isabelle
  imports Main "HOL-Library.Char_ord" "HOL-Library.List_Lexorder" "HOL-Library.Multiset"
    "HOL-Library.Word"
begin

section \<open>The stock table\<close>

text \<open>
  \<^verbatim>\<open>bot.py\<close> keeps one SQLite table,
  \<^verbatim>\<open>stock (sku TEXT PRIMARY KEY, name TEXT, qty INTEGER NOT NULL DEFAULT 0)\<close>,
  behind a module-level connection. A row is the tuple \<open>(sku, name, qty)\<close> that the
  cursor returns; the table is the list of its rows in insertion order. Every helper
  takes the table and returns the table it leaves behind together with what the call
  does in Python: it returns a value, or it raises.

  Text is a list of characters read as code points below 256. A quantity in Python is
  an unbounded integer. A stored quantity is an SQLite INTEGER, a signed 64-bit word,
  which the cursor hands back as the integer \<open>sint\<close> reads from it. Passing an integer
  outside that range as a parameter of a statement raises \<^verbatim>\<open>OverflowError\<close> before the
  statement runs, so the table is as it was; no handler catches this exception.
  The interpreter's own limit on the digits that \<^verbatim>\<open>int\<close> converts lies above the
  length a message can have and is not modelled.
\<close>

type_synonym row = "string \<times> string \<times> 64 word"

type_synonym db = "row list"

datatype py_error = OverflowError

datatype 'a result = Raise py_error | Return 'a

definition fits_int64 :: "int \<Rightarrow> bool" where
  "fits_int64 n \<longleftrightarrow> - (2 ^ 63) \<le> n \<and> n < 2 ^ 63"

text \<open>The four SQL statements the helpers execute.\<close>

definition select_row :: "db \<Rightarrow> string \<Rightarrow> row option" where
  \<comment> \<open>\<^verbatim>\<open>SELECT ... FROM stock WHERE sku = ?\<close> followed by \<^verbatim>\<open>fetchone()\<close>\<close>
  "select_row db sku = find (\<lambda>r. fst r = sku) db"

definition set_qty :: "db \<Rightarrow> string \<Rightarrow> 64 word \<Rightarrow> db" where
  \<comment> \<open>what the UPDATE does to the rows once its parameters are bound\<close>
  "set_qty db sku w = map (\<lambda>r. if fst r = sku then (fst r, fst (snd r), w) else r) db"

definition update_qty :: "db \<Rightarrow> string \<Rightarrow> int \<Rightarrow> db result" where
  \<comment> \<open>\<^verbatim>\<open>UPDATE stock SET qty = ? WHERE sku = ?\<close>\<close>
  "update_qty db sku q =
     (if fits_int64 q then Return (set_qty db sku (word_of_int q)) else Raise OverflowError)"

definition insert_row :: "db \<Rightarrow> string \<Rightarrow> string \<Rightarrow> int \<Rightarrow> db result" where
  \<comment> \<open>\<^verbatim>\<open>INSERT INTO stock (sku, name, qty) VALUES (?, ?, ?)\<close>; the only call site
      runs it after the SELECT found no row for the key\<close>
  "insert_row db sku name qty =
     (if fits_int64 qty then Return (db @ [(sku, name, word_of_int qty)]) else Raise OverflowError)"

definition delete_row :: "db \<Rightarrow> string \<Rightarrow> db" where
  \<comment> \<open>\<^verbatim>\<open>DELETE FROM stock WHERE sku = ?\<close>\<close>
  "delete_row db sku = filter (\<lambda>r. fst r \<noteq> sku) db"

section \<open>Helper functions\<close>

definition add_or_update_sku :: "db \<Rightarrow> string \<Rightarrow> string \<Rightarrow> int \<Rightarrow> db \<times> bool result" where
  "add_or_update_sku db sku name qty =
     (case select_row db sku of
        Some r \<Rightarrow>
          (let new_qty = sint (snd (snd r)) + qty in
           case update_qty db sku new_qty of
             Raise e \<Rightarrow> (db, Raise e)
           | Return db' \<Rightarrow> (db', Return True))
      | None \<Rightarrow>
          (case insert_row db sku name qty of
             Raise e \<Rightarrow> (db, Raise e)
           | Return db' \<Rightarrow> (db', Return True)))"

definition get_stock :: "db \<Rightarrow> string \<Rightarrow> db \<times> row option" where
  "get_stock db sku = (db, select_row db sku)"

definition list_all :: "db \<Rightarrow> db \<times> row list" where
  \<comment> \<open>\<^verbatim>\<open>SELECT sku, name, qty FROM stock ORDER BY sku\<close>: the default collation
      compares the encoded text bytewise, which is the lexicographic order of the
      code points\<close>
  "list_all db = (db, sort_key fst db)"

text \<open>
  \<^verbatim>\<open>reduce_stock\<close> returns \<^verbatim>\<open>(False, message)\<close> or \<^verbatim>\<open>(True, new_q)\<close>. The two messages
  are \<^verbatim>\<open>"SKU not found"\<close> and \<^verbatim>\<open>f"Not enough stock (have {current})"\<close>.
\<close>

datatype sell_error = SKU_not_found | Not_enough_stock int

definition reduce_stock :: "db \<Rightarrow> string \<Rightarrow> int \<Rightarrow> db \<times> (sell_error + int) result" where
  "reduce_stock db sku amount =
     (case select_row db sku of
        None \<Rightarrow> (db, Return (Inl SKU_not_found))
      | Some r \<Rightarrow>
          (let current = sint (snd (snd r)) in
           if amount > current then (db, Return (Inl (Not_enough_stock current)))
           else (let new_q = current - amount in
                 case update_qty db sku new_q of
                   Raise e \<Rightarrow> (db, Raise e)
                 | Return db' \<Rightarrow> (db', Return (Inr new_q)))))"

definition delete_sku :: "db \<Rightarrow> string \<Rightarrow> db \<times> bool" where
  "delete_sku db sku =
     (case select_row db sku of
        None \<Rightarrow> (db, False)
      | Some r \<Rightarrow> (delete_row db sku, True))"

section \<open>Replies of the command handlers\<close>

text \<open>
  A handler answers with one \<^verbatim>\<open>reply_text\<close> call. A reply is modelled by the branch
  that produced it, carrying the values its text is formatted from; \<open>Usage\<close> stands for
  the usage line of the handler that sends it. A line of a bulk
  reply is an \<open>outcome\<close>: the lines marked with a cross in the source are
  \<open>Invalid_format\<close> (\<^verbatim>\<open>Invalid format: `{entry}`\<close>), \<open>Qty_not_number\<close>
  (\<^verbatim>\<open>`{sku}`: qty must be a number ({qty_str})\<close>) and \<open>Sell_failed\<close>
  (\<^verbatim>\<open>`{sku}`: {res}\<close>); the lines marked with a tick are \<open>Added\<close>
  (\<^verbatim>\<open>`{sku}` +{qty} ({name})\<close>) and \<open>Sold\<close> (\<^verbatim>\<open>`{sku}` - sold {qty}. New qty: {res}\<close>).
\<close>

datatype outcome =
    Invalid_format string
  | Qty_not_number string string
  | Added string int string
  | Sell_failed string sell_error
  | Sold string int int

datatype reply =
    Usage
  | SKU_not_found_reply
  | Stock_of row
  | No_items_in_stock
  | Current_stock "row list"
  | No_valid_entries
  | Results "outcome list"

definition stock_cmd :: "db \<Rightarrow> string list \<Rightarrow> db \<times> reply" where
  "stock_cmd db args =
     (if length args \<noteq> 1 then (db, Usage)
      else (case get_stock db (args ! 0) of
              (db', None) \<Rightarrow> (db', SKU_not_found_reply)
            | (db', Some r) \<Rightarrow> (db', Stock_of r)))"

definition list_cmd :: "db \<Rightarrow> db \<times> reply" where
  "list_cmd db =
     (case list_all db of
        (db', rows) \<Rightarrow> if rows = [] then (db', No_items_in_stock) else (db', Current_stock rows))"

section \<open>Text\<close>

text \<open>
  The string methods the bulk handlers use. \<^verbatim>\<open>str.strip()\<close> removes the characters
  for which \<^verbatim>\<open>str.isspace\<close> holds from both ends; below code point 256 these are the
  twelve listed. \<^verbatim>\<open>str.split(sep)\<close> cuts at every separator and keeps empty pieces.
  \<^verbatim>\<open>str.partition(sep)\<close> cuts at the first separator into the text before it, the
  separator and the text after it; without a separator the last two are empty.
\<close>

definition isspace :: "char \<Rightarrow> bool" where
  "isspace c \<longleftrightarrow>
     c \<in> {CHR 0x09, CHR 0x0A, CHR 0x0B, CHR 0x0C, CHR 0x0D, CHR 0x1C, CHR 0x1D, CHR 0x1E,
           CHR 0x1F, CHR 0x20, CHR 0x85, CHR 0xA0}"

definition str_strip :: "string \<Rightarrow> string" where
  "str_strip s = rev (dropWhile isspace (rev (dropWhile isspace s)))"

fun str_split :: "char \<Rightarrow> string \<Rightarrow> string list" where
  "str_split sep [] = [[]]"
| "str_split sep (c # cs) =
     (if c = sep then [] # str_split sep cs
      else (case str_split sep cs of
              [] \<Rightarrow> [[c]]
            | w # ws \<Rightarrow> (c # w) # ws))"

definition str_partition :: "char \<Rightarrow> string \<Rightarrow> string \<times> string \<times> string" where
  "str_partition sep s =
     (if sep \<in> set s
      then (takeWhile (\<lambda>c. c \<noteq> sep) s, [sep], tl (dropWhile (\<lambda>c. c \<noteq> sep) s))
      else (s, [], []))"

text \<open>
  \<^verbatim>\<open>int(s)\<close> on text: it skips the whitespace of the C locale (and the two
  whitespace code points between 128 and 255) at both ends, reads an optional sign and
  then decimal digits, where single underscores may stand between digits. Anything
  else raises \<^verbatim>\<open>ValueError\<close>, which is \<open>None\<close> here.
\<close>

definition int_space :: "char \<Rightarrow> bool" where
  "int_space c \<longleftrightarrow>
     c \<in> {CHR 0x09, CHR 0x0A, CHR 0x0B, CHR 0x0C, CHR 0x0D, CHR 0x20, CHR 0x85, CHR 0xA0}"

definition isdigit :: "char \<Rightarrow> bool" where
  "isdigit c \<longleftrightarrow> CHR ''0'' \<le> c \<and> c \<le> CHR ''9''"

definition digit_value :: "char \<Rightarrow> nat" where
  "digit_value c = of_char c - of_char CHR ''0''"

fun more_digits :: "nat \<Rightarrow> string \<Rightarrow> nat option" where
  "more_digits acc [] = Some acc"
| "more_digits acc [c] = (if isdigit c then Some (10 * acc + digit_value c) else None)"
| "more_digits acc (c # d # cs) =
     (if isdigit c then more_digits (10 * acc + digit_value c) (d # cs)
      else if c = CHR ''_'' \<and> isdigit d then more_digits (10 * acc + digit_value d) cs
      else None)"

definition digits :: "string \<Rightarrow> nat option" where
  "digits s =
     (case s of
        [] \<Rightarrow> None
      | c # cs \<Rightarrow> if isdigit c then more_digits (digit_value c) cs else None)"

definition py_int :: "string \<Rightarrow> int option" where
  "py_int s =
     (case rev (dropWhile int_space (rev (dropWhile int_space s))) of
        [] \<Rightarrow> None
      | c # cs \<Rightarrow>
          if c = CHR ''-'' then map_option (\<lambda>n. - int n) (digits cs)
          else if c = CHR ''+'' then map_option int (digits cs)
          else map_option int (digits (c # cs)))"

section \<open>Bulk handlers\<close>

text \<open>
  Both handlers take the message text, drop the command word with
  \<^verbatim>\<open>partition(" ")[2].strip()\<close> and cut what is left into entries with the same list
  comprehension, \<^verbatim>\<open>[p.strip() for p in text.split(";") if p.strip()]\<close>. The body of each
  \<^verbatim>\<open>for entry in parts\<close> loop is a function of the table and the entry; the loop
  appends one line to \<^verbatim>\<open>results\<close> per entry. The bodies catch \<^verbatim>\<open>ValueError\<close> only: an
  exception of a helper leaves the loop and the handler, and no reply is sent.
\<close>

definition payload :: "string \<Rightarrow> string" where
  "payload message_text = str_strip (snd (snd (str_partition CHR '' '' message_text)))"

definition entries :: "string \<Rightarrow> string list" where
  "entries text = map str_strip (filter (\<lambda>p. str_strip p \<noteq> []) (str_split CHR '';'' text))"

definition addbulk_entry :: "db \<Rightarrow> string \<Rightarrow> db \<times> outcome result" where
  "addbulk_entry db entry =
     (let bits = map str_strip (str_split CHR ''|'' entry) in
      if length bits \<noteq> 3 then (db, Return (Invalid_format entry))
      else (let sku = bits ! 0; name = bits ! 1; qty_str = bits ! 2 in
            case py_int qty_str of
              None \<Rightarrow> (db, Return (Qty_not_number sku qty_str))
            | Some qty \<Rightarrow>
                (case add_or_update_sku db sku name qty of
                   (db', Raise e) \<Rightarrow> (db', Raise e)
                 | (db', Return ok) \<Rightarrow> (db', Return (Added sku qty name)))))"

fun addbulk_loop :: "db \<Rightarrow> outcome list \<Rightarrow> string list \<Rightarrow> db \<times> outcome list result" where
  "addbulk_loop db results [] = (db, Return results)"
| "addbulk_loop db results (entry # parts) =
     (case addbulk_entry db entry of
        (db', Raise e) \<Rightarrow> (db', Raise e)
      | (db', Return line) \<Rightarrow> addbulk_loop db' (results @ [line]) parts)"

definition addbulk_cmd :: "db \<Rightarrow> string \<Rightarrow> db \<times> reply result" where
  "addbulk_cmd db message_text =
     (let text = payload message_text in
      if text = [] then (db, Return Usage)
      else (let parts = entries text in
            if parts = [] then (db, Return No_valid_entries)
            else (case addbulk_loop db [] parts of
                    (db', Raise e) \<Rightarrow> (db', Raise e)
                  | (db', Return results) \<Rightarrow> (db', Return (Results results)))))"

definition sellbulk_entry :: "db \<Rightarrow> string \<Rightarrow> db \<times> outcome result" where
  "sellbulk_entry db entry =
     (let bits = map str_strip (str_split CHR ''|'' entry) in
      if length bits \<noteq> 2 then (db, Return (Invalid_format entry))
      else (let sku = bits ! 0; qty_str = bits ! 1 in
            case py_int qty_str of
              None \<Rightarrow> (db, Return (Qty_not_number sku qty_str))
            | Some qty \<Rightarrow>
                (case reduce_stock db sku qty of
                   (db', Raise e) \<Rightarrow> (db', Raise e)
                 | (db', Return (Inl res)) \<Rightarrow> (db', Return (Sell_failed sku res))
                 | (db', Return (Inr res)) \<Rightarrow> (db', Return (Sold sku qty res)))))"

fun sellbulk_loop :: "db \<Rightarrow> outcome list \<Rightarrow> string list \<Rightarrow> db \<times> outcome list result" where
  "sellbulk_loop db results [] = (db, Return results)"
| "sellbulk_loop db results (entry # parts) =
     (case sellbulk_entry db entry of
        (db', Raise e) \<Rightarrow> (db', Raise e)
      | (db', Return line) \<Rightarrow> sellbulk_loop db' (results @ [line]) parts)"

definition sellbulk_cmd :: "db \<Rightarrow> string \<Rightarrow> db \<times> reply result" where
  "sellbulk_cmd db message_text =
     (let text = payload message_text in
      if text = [] then (db, Return Usage)
      else (let parts = entries text in
            if parts = [] then (db, Return No_valid_entries)
            else (case sellbulk_loop db [] parts of
                    (db', Raise e) \<Rightarrow> (db', Raise e)
                  | (db', Return results) \<Rightarrow> (db', Return (Results results)))))"



section \<open>Sequences of helper calls\<close>

text \<open>
  The handlers reach the table only through the helpers, and only three helpers
  write. A \<open>call\<close> is one such invocation; \<open>run\<close> performs a sequence of them on
  the shared connection, one after the other. A call that raises ends its handler
  and leaves the table to the next call.
\<close>

datatype call = Add_or_update string string int | Reduce string int | Delete string

fun exec :: "db \<Rightarrow> call \<Rightarrow> db" where
  "exec db (Add_or_update sku name qty) = fst (add_or_update_sku db sku name qty)"
| "exec db (Reduce sku amount) = fst (reduce_stock db sku amount)"
| "exec db (Delete sku) = fst (delete_sku db sku)"

definition run :: "db \<Rightarrow> call list \<Rightarrow> db" where
  "run db calls = foldl exec db calls"

fun inserts :: "string \<Rightarrow> call \<Rightarrow> bool" where
  "inserts sku (Add_or_update sku' name qty) = (sku' = sku)"
| "inserts sku (Reduce sku' amount) = False"
| "inserts sku (Delete sku') = False"

section \<open>Facts about the SQL statements\<close>

lemma fits_int64_sint: "fits_int64 (sint (q :: 64 word))"
  using sint_ge [of q] sint_lt [of q] by (simp add: fits_int64_def)

lemma sint_word_of_int_fits: "fits_int64 n \<Longrightarrow> sint (word_of_int n :: 64 word) = n"
  using signed_take_bit_int_eq_self [of 63 n] by (simp add: fits_int64_def sint_sbintrunc')

lemma select_row_None_iff: "select_row db sku = None \<longleftrightarrow> sku \<notin> fst ` set db"
  by (induction db) (auto simp: select_row_def)

lemma select_row_append_absent:
  "select_row db sku = None \<Longrightarrow> select_row (db @ [(sku, name, w)]) sku = Some (sku, name, w)"
  by (induction db) (auto simp: select_row_def split: if_splits)

lemma select_row_set_qty:
  "select_row db sku = Some r \<Longrightarrow> select_row (set_qty db sku w) sku = Some (sku, fst (snd r), w)"
  by (induction db) (auto simp: select_row_def set_qty_def split: if_splits)

lemma select_row_set_qty_other:
  "sku' \<noteq> sku \<Longrightarrow> select_row (set_qty db sku w) sku' = select_row db sku'"
  by (induction db) (auto simp: select_row_def set_qty_def)

lemma select_row_delete: "select_row (delete_row db sku) sku = None"
  by (auto simp: select_row_None_iff delete_row_def)

lemma select_row_distinct:
  "distinct (map fst db) \<Longrightarrow> (sku, name, q) \<in> set db \<Longrightarrow> select_row db sku = Some (sku, name, q)"
  by (induction db) (auto simp: select_row_def image_iff)

lemma keys_set_qty: "map fst (set_qty db sku w) = map fst db"
  by (induction db) (auto simp: set_qty_def)

lemma key_set_set_qty: "fst ` set (set_qty db sku w) = fst ` set db"
proof -
  have "set (map fst (set_qty db sku w)) = set (map fst db)"
    by (simp only: keys_set_qty)
  then show ?thesis
    by simp
qed

lemma add_or_update_sku_present:
  "select_row db sku = Some r \<Longrightarrow>
   add_or_update_sku db sku name qty =
     (if fits_int64 (sint (snd (snd r)) + qty)
      then (set_qty db sku (word_of_int (sint (snd (snd r)) + qty)), Return True)
      else (db, Raise OverflowError))"
  by (simp add: add_or_update_sku_def update_qty_def Let_def)

lemma add_or_update_sku_absent:
  "select_row db sku = None \<Longrightarrow>
   add_or_update_sku db sku name qty =
     (if fits_int64 qty then (db @ [(sku, name, word_of_int qty)], Return True)
      else (db, Raise OverflowError))"
  by (simp add: add_or_update_sku_def insert_row_def)

lemma reduce_stock_present:
  "select_row db sku = Some r \<Longrightarrow>
   reduce_stock db sku amount =
     (if amount > sint (snd (snd r)) then (db, Return (Inl (Not_enough_stock (sint (snd (snd r))))))
      else if fits_int64 (sint (snd (snd r)) - amount)
      then (set_qty db sku (word_of_int (sint (snd (snd r)) - amount)),
            Return (Inr (sint (snd (snd r)) - amount)))
      else (db, Raise OverflowError))"
  by (simp add: reduce_stock_def update_qty_def Let_def)

lemma reduce_stock_absent:
  "select_row db sku = None \<Longrightarrow> reduce_stock db sku amount = (db, Return (Inl SKU_not_found))"
  by (simp add: reduce_stock_def)

lemma keys_exec: "fst ` set (exec db c) \<subseteq> fst ` set db \<union> {sku. inserts sku c}"
proof (cases c)
  case (Add_or_update sku name qty)
  then show ?thesis
    by (cases "select_row db sku")
      (auto simp: add_or_update_sku_absent add_or_update_sku_present key_set_set_qty)
next
  case (Reduce sku amount)
  then show ?thesis
    by (cases "select_row db sku")
      (auto simp: reduce_stock_absent reduce_stock_present key_set_set_qty)
next
  case (Delete sku)
  then show ?thesis
    by (auto simp: delete_sku_def delete_row_def split: option.splits)
qed

lemma keys_run:
  "\<forall>c \<in> set calls. \<not> inserts sku c \<Longrightarrow> sku \<notin> fst ` set db \<Longrightarrow> sku \<notin> fst ` set (run db calls)"
proof (induction calls arbitrary: db)
  case Nil
  then show ?case by (simp add: run_def)
next
  case (Cons c calls)
  from Cons.prems have "sku \<notin> fst ` set (exec db c)"
    using keys_exec [of db c] by auto
  with Cons show ?case
    by (simp add: run_def)
qed

lemma distinct_exec: "distinct (map fst db) \<Longrightarrow> distinct (map fst (exec db c))"
proof (cases c)
  case (Add_or_update sku name qty)
  assume d: "distinct (map fst db)"
  show ?thesis
  proof (cases "select_row db sku")
    case None
    then have "sku \<notin> fst ` set db"
      by (simp add: select_row_None_iff)
    with d Add_or_update None show ?thesis
      by (simp add: add_or_update_sku_absent)
  next
    case (Some r)
    with d Add_or_update show ?thesis
      by (simp add: add_or_update_sku_present keys_set_qty)
  qed
next
  case (Reduce sku amount)
  assume "distinct (map fst db)"
  with Reduce show ?thesis
    by (cases "select_row db sku")
      (simp_all add: reduce_stock_absent reduce_stock_present keys_set_qty)
next
  case (Delete sku)
  assume "distinct (map fst db)"
  with Delete show ?thesis
    by (simp add: delete_sku_def delete_row_def distinct_map_filter split: option.splits)
qed

lemma distinct_run: "distinct (map fst db) \<Longrightarrow> distinct (map fst (run db calls))"
  by (induction calls arbitrary: db) (simp_all add: run_def distinct_exec)

section \<open>Upsert\<close>

text \<open>
  C1, as the code has it. Adding a SKU that the table does not hold and then adding
  the same SKU again under another name, with \<open>d1\<close> and \<open>d1 + d2\<close> both in the 64-bit
  range of the column, returns \<open>True\<close> twice and leaves the quantity \<open>d1 + d2\<close> and the
  name of the first call. When \<open>d1\<close> is outside the range the first call raises and
  stores nothing; when \<open>d1 + d2\<close> is, the second call raises and the table stays as
  the first call left it.
\<close>

theorem upsert_twice_accumulates:
  assumes "snd (get_stock db sku) = None"
  shows "(fits_int64 d1 \<and> fits_int64 (d1 + d2) \<longrightarrow>
            snd (add_or_update_sku db sku name d1) = Return True \<and>
            snd (add_or_update_sku (fst (add_or_update_sku db sku name d1)) sku name2 d2) = Return True \<and>
            snd (get_stock
                  (fst (add_or_update_sku (fst (add_or_update_sku db sku name d1)) sku name2 d2)) sku)
              = Some (sku, name, word_of_int (d1 + d2)) \<and>
            sint (word_of_int (d1 + d2) :: 64 word) = d1 + d2) \<and>
         (\<not> fits_int64 d1 \<longrightarrow> add_or_update_sku db sku name d1 = (db, Raise OverflowError)) \<and>
         (fits_int64 d1 \<and> \<not> fits_int64 (d1 + d2) \<longrightarrow>
            add_or_update_sku (fst (add_or_update_sku db sku name d1)) sku name2 d2 =
              (fst (add_or_update_sku db sku name d1), Raise OverflowError))"
proof -
  from assms have absent: "select_row db sku = None"
    by (simp add: get_stock_def)
  have first: "add_or_update_sku db sku name d1 = (db @ [(sku, name, word_of_int d1)], Return True)"
    if "fits_int64 d1"
    using that absent by (simp add: add_or_update_sku_absent)
  have found: "select_row (db @ [(sku, name, word_of_int d1)]) sku = Some (sku, name, word_of_int d1)"
    using absent by (rule select_row_append_absent)
  have second:
    "add_or_update_sku (db @ [(sku, name, word_of_int d1)]) sku name2 d2 =
       (if fits_int64 (d1 + d2)
        then (set_qty (db @ [(sku, name, word_of_int d1)]) sku (word_of_int (d1 + d2)), Return True)
        else (db @ [(sku, name, word_of_int d1)], Raise OverflowError))"
    if "fits_int64 d1"
    using that add_or_update_sku_present [OF found, of name2 d2]
    by (simp add: sint_word_of_int_fits del: of_int_add of_int_diff)
  have stored:
    "select_row (set_qty (db @ [(sku, name, word_of_int d1)]) sku (word_of_int (d1 + d2))) sku
       = Some (sku, name, word_of_int (d1 + d2))"
    using select_row_set_qty [OF found] by (simp del: of_int_add of_int_diff)
  have overflow: "add_or_update_sku db sku name d1 = (db, Raise OverflowError)" if "\<not> fits_int64 d1"
    using that absent by (simp add: add_or_update_sku_absent)
  have read: "sint (word_of_int (d1 + d2) :: 64 word) = d1 + d2" if "fits_int64 (d1 + d2)"
    using that by (rule sint_word_of_int_fits)
  show ?thesis
    using first second stored overflow read
    by (simp add: get_stock_def del: of_int_add of_int_diff)
qed

theorem upsert_twice_accumulates_witness:
  "snd (get_stock [(''B'', ''Bolt'', 1)] ''A'') = None \<and>
   snd (get_stock
          (fst (add_or_update_sku (fst (add_or_update_sku [(''B'', ''Bolt'', 1)] ''A'' ''Widget'' 5))
                 ''A'' ''Gadget'' (- 7))) ''A'')
     = Some (''A'', ''Widget'', - 2) \<and>
   add_or_update_sku [(''B'', ''Bolt'', 1)] ''A'' ''Widget'' 9223372036854775808 =
     ([(''B'', ''Bolt'', 1)], Raise OverflowError) \<and>
   snd (add_or_update_sku (fst (add_or_update_sku [(''B'', ''Bolt'', 1)] ''A'' ''Widget'' 9223372036854775807))
          ''A'' ''Gadget'' 1) = Raise OverflowError"
proof -
  have absent: "snd (get_stock [(''B'', ''Bolt'', 1)] ''A'') = None"
    by (simp add: get_stock_def select_row_def)
  from upsert_twice_accumulates [OF absent, of 5 "- 7" "''Widget''" "''Gadget''"]
  have "snd (get_stock
          (fst (add_or_update_sku (fst (add_or_update_sku [(''B'', ''Bolt'', 1)] ''A'' ''Widget'' 5))
                 ''A'' ''Gadget'' (- 7))) ''A'')
     = Some (''A'', ''Widget'', - 2)"
    by (simp add: fits_int64_def)
  moreover
  from upsert_twice_accumulates [OF absent, of 9223372036854775808 0 "''Widget''" "''Gadget''"]
  have "add_or_update_sku [(''B'', ''Bolt'', 1)] ''A'' ''Widget'' 9223372036854775808 =
     ([(''B'', ''Bolt'', 1)], Raise OverflowError)"
    by (simp add: fits_int64_def)
  moreover
  from upsert_twice_accumulates [OF absent, of 9223372036854775807 1 "''Widget''" "''Gadget''"]
  have "snd (add_or_update_sku (fst (add_or_update_sku [(''B'', ''Bolt'', 1)] ''A'' ''Widget'' 9223372036854775807))
          ''A'' ''Gadget'' 1) = Raise OverflowError"
    by (simp add: fits_int64_def)
  ultimately show ?thesis
    using absent by simp
qed

text \<open>
  The claim as the specification words it, for every pair of deltas, fails at
  \<open>d1 = 2 ^ 63\<close>: the first call raises and stores nothing, so the second call creates
  the row with the second name and the second delta.
\<close>

theorem upsert_overflow_counterexample:
  "snd (get_stock
          (fst (add_or_update_sku (fst (add_or_update_sku [] ''A'' ''Widget'' 9223372036854775808))
                 ''A'' ''Gadget'' 5)) ''A'')
     = Some (''A'', ''Gadget'', 5)"
proof -
  have none: "select_row [] ''A'' = None"
    by (simp add: select_row_def)
  have "add_or_update_sku [] ''A'' ''Widget'' 9223372036854775808 = ([], Raise OverflowError)"
    by (simp add: add_or_update_sku_absent [OF none] fits_int64_def)
  moreover have "add_or_update_sku [] ''A'' ''Gadget'' 5 = ([(''A'', ''Gadget'', 5)], Return True)"
    by (simp add: add_or_update_sku_absent [OF none] fits_int64_def)
  ultimately show ?thesis
    by (simp add: get_stock_def select_row_def)
qed

section \<open>Decrement\<close>

text \<open>
  C3. Selling more than the table holds of a SKU returns the error that carries the
  current quantity and leaves the whole table as it was; selling a SKU that the table
  does not hold returns the not-found error and leaves the table as it was.
\<close>

theorem reduce_stock_rejects:
  "(snd (get_stock db sku) = Some (s, n, q) \<and> amount > sint q \<longrightarrow>
      reduce_stock db sku amount = (db, Return (Inl (Not_enough_stock (sint q))))) \<and>
   (snd (get_stock db sku) = None \<longrightarrow>
      reduce_stock db sku amount = (db, Return (Inl SKU_not_found)))"
  by (simp add: get_stock_def reduce_stock_def)

theorem reduce_stock_rejects_witness:
  "snd (get_stock [(''X'', ''Widget'', 8)] ''X'') = Some (''X'', ''Widget'', 8) \<and>
   (100::int) > sint (8 :: 64 word) \<and>
   reduce_stock [(''X'', ''Widget'', 8)] ''X'' 100 =
     ([(''X'', ''Widget'', 8)], Return (Inl (Not_enough_stock 8))) \<and>
   snd (get_stock [(''X'', ''Widget'', 8)] ''Y'') = None \<and>
   reduce_stock [(''X'', ''Widget'', 8)] ''Y'' 100 = ([(''X'', ''Widget'', 8)], Return (Inl SKU_not_found))"
proof -
  have present: "snd (get_stock [(''X'', ''Widget'', 8)] ''X'') = Some (''X'', ''Widget'', 8)"
    by (simp add: get_stock_def select_row_def)
  have absent: "snd (get_stock [(''X'', ''Widget'', 8)] ''Y'') = None"
    by (simp add: get_stock_def select_row_def)
  from reduce_stock_rejects [of "[(''X'', ''Widget'', 8)]" "''X''" "''X''" "''Widget''" 8 100]
    reduce_stock_rejects [of "[(''X'', ''Widget'', 8)]" "''Y''" "''X''" "''Widget''" 8 100]
    present absent
  show ?thesis by simp
qed

text \<open>
  C4. Selling an amount between zero and the current quantity \<open>q\<close> of a SKU returns
  \<open>q - amount\<close>, and a lookup of the SKU right afterwards finds the row with
  quantity \<open>q - amount\<close> and its name unchanged; the rows of the other SKUs are as
  they were. The new quantity lies between zero and the stored one, so it fits the
  column.
\<close>

theorem reduce_stock_applies:
  assumes "snd (get_stock db sku) = Some (s, n, q)" and "0 \<le> amount" and "amount \<le> sint q"
  shows "snd (reduce_stock db sku amount) = Return (Inr (sint q - amount)) \<and>
         snd (get_stock (fst (reduce_stock db sku amount)) sku)
           = Some (sku, n, word_of_int (sint q - amount)) \<and>
         sint (word_of_int (sint q - amount) :: 64 word) = sint q - amount \<and>
         (\<forall>sku'. sku' \<noteq> sku \<longrightarrow>
            snd (get_stock (fst (reduce_stock db sku amount)) sku') = snd (get_stock db sku'))"
proof -
  from assms(1) have found: "select_row db sku = Some (s, n, q)"
    by (simp add: get_stock_def)
  have fits: "fits_int64 (sint q - amount)"
    using fits_int64_sint [of q] assms(2,3) by (simp add: fits_int64_def)
  with assms(3) have result:
    "reduce_stock db sku amount =
       (set_qty db sku (word_of_int (sint q - amount)), Return (Inr (sint q - amount)))"
    using reduce_stock_present [OF found, of amount] by (simp del: of_int_add of_int_diff)
  have stored: "select_row (set_qty db sku (word_of_int (sint q - amount))) sku
          = Some (sku, n, word_of_int (sint q - amount))"
    using select_row_set_qty [OF found] by (simp del: of_int_add of_int_diff)
  have read: "sint (word_of_int (sint q - amount) :: 64 word) = sint q - amount"
    using fits by (rule sint_word_of_int_fits)
  show ?thesis
    using stored read
    by (simp add: result get_stock_def select_row_set_qty_other del: of_int_add of_int_diff)
qed

theorem reduce_stock_applies_witness:
  "snd (get_stock [(''X'', ''Widget'', 8)] ''X'') = Some (''X'', ''Widget'', 8) \<and>
   snd (reduce_stock [(''X'', ''Widget'', 8)] ''X'' 3) = Return (Inr 5) \<and>
   snd (get_stock (fst (reduce_stock [(''X'', ''Widget'', 8)] ''X'' 3)) ''X'') = Some (''X'', ''Widget'', 5)"
proof -
  have present: "snd (get_stock [(''X'', ''Widget'', 8)] ''X'') = Some (''X'', ''Widget'', 8)"
    by (simp add: get_stock_def select_row_def)
  from reduce_stock_applies [OF present, of 3] present
  show ?thesis by simp
qed

text \<open>
  C10, as the code has it. The comparison \<open>amount > current\<close> is the only check of
  the amount: a negative amount \<open>a\<close> on a SKU whose quantity \<open>q\<close> is not negative passes
  it. When \<open>q - a\<close> is below \<open>2 ^ 63\<close> the call returns \<open>q - a\<close> and the table then holds
  \<open>q - a\<close>, which is more than \<open>q\<close>. When \<open>q - a\<close> is \<open>2 ^ 63\<close> or more the UPDATE raises
  and the table stays as it was.
\<close>

theorem reduce_stock_negative_amount:
  assumes "snd (get_stock db sku) = Some (s, n, q)" and "0 \<le> sint q" and "a < 0"
  shows "(sint q - a < 2 ^ 63 \<longrightarrow>
            snd (reduce_stock db sku a) = Return (Inr (sint q - a)) \<and>
            snd (get_stock (fst (reduce_stock db sku a)) sku) = Some (sku, n, word_of_int (sint q - a)) \<and>
            sint (word_of_int (sint q - a) :: 64 word) = sint q - a \<and>
            sint q < sint q - a) \<and>
         (2 ^ 63 \<le> sint q - a \<longrightarrow> reduce_stock db sku a = (db, Raise OverflowError))"
proof -
  from assms(1) have found: "select_row db sku = Some (s, n, q)"
    by (simp add: get_stock_def)
  from assms(2,3) have passes: "\<not> a > sint q"
    by simp
  have fits: "fits_int64 (sint q - a) \<longleftrightarrow> sint q - a < 2 ^ 63"
    using assms(2,3) by (simp add: fits_int64_def)
  have result:
    "reduce_stock db sku a =
       (if sint q - a < 2 ^ 63
        then (set_qty db sku (word_of_int (sint q - a)), Return (Inr (sint q - a)))
        else (db, Raise OverflowError))"
    using reduce_stock_present [OF found, of a] passes fits by (simp del: of_int_add of_int_diff)
  have stored: "select_row (set_qty db sku (word_of_int (sint q - a))) sku
          = Some (sku, n, word_of_int (sint q - a))"
    using select_row_set_qty [OF found] by (simp del: of_int_add of_int_diff)
  have read: "sint (word_of_int (sint q - a) :: 64 word) = sint q - a" if "sint q - a < 2 ^ 63"
  proof (rule sint_word_of_int_fits)
    from that fits show "fits_int64 (sint q - a)"
      by simp
  qed
  show ?thesis
    using assms(3) stored read
    by (simp add: result get_stock_def del: of_int_add of_int_diff)
qed

theorem reduce_stock_negative_amount_witness:
  "snd (get_stock [(''X'', ''Widget'', 8)] ''X'') = Some (''X'', ''Widget'', 8) \<and>
   snd (reduce_stock [(''X'', ''Widget'', 8)] ''X'' (- 3)) = Return (Inr 11) \<and>
   snd (get_stock (fst (reduce_stock [(''X'', ''Widget'', 8)] ''X'' (- 3))) ''X'') = Some (''X'', ''Widget'', 11) \<and>
   reduce_stock [(''X'', ''Widget'', 8)] ''X'' (- 9223372036854775808) =
     ([(''X'', ''Widget'', 8)], Raise OverflowError)"
proof -
  have present: "snd (get_stock [(''X'', ''Widget'', 8)] ''X'') = Some (''X'', ''Widget'', 8)"
    by (simp add: get_stock_def select_row_def)
  from reduce_stock_negative_amount [OF present, of "- 3"]
  have "snd (reduce_stock [(''X'', ''Widget'', 8)] ''X'' (- 3)) = Return (Inr 11) \<and>
   snd (get_stock (fst (reduce_stock [(''X'', ''Widget'', 8)] ''X'' (- 3))) ''X'') = Some (''X'', ''Widget'', 11)"
    by simp
  moreover from reduce_stock_negative_amount [OF present, of "- 9223372036854775808"]
  have "reduce_stock [(''X'', ''Widget'', 8)] ''X'' (- 9223372036854775808) =
     ([(''X'', ''Widget'', 8)], Raise OverflowError)"
    by simp
  ultimately show ?thesis
    using present by simp
qed

text \<open>
  The claim as stated, for every quantity that is not negative and every negative
  amount, fails at the top of the range: selling -1 of X from \<open>2 ^ 63 - 1\<close> raises, and
  the table still holds \<open>2 ^ 63 - 1\<close>.
\<close>

theorem reduce_stock_overflow_counterexample:
  "reduce_stock [(''X'', ''Widget'', 9223372036854775807)] ''X'' (- 1) =
     ([(''X'', ''Widget'', 9223372036854775807)], Raise OverflowError)"
proof -
  have found: "select_row [(''X'', ''Widget'', 9223372036854775807)] ''X'' =
      Some (''X'', ''Widget'', 9223372036854775807)"
    by (simp add: select_row_def)
  show ?thesis
    using reduce_stock_present [OF found, of "- 1"]
    by (simp add: fits_int64_def)
qed

section \<open>Delete\<close>

text \<open>
  C6. Deleting a SKU that the table does not hold returns \<open>False\<close> and leaves the
  table as it was; deleting one that it holds returns \<open>True\<close>, nothing more, and a
  lookup of the SKU afterwards finds no row.
\<close>

theorem delete_sku_result:
  "(snd (get_stock db sku) = None \<longrightarrow> delete_sku db sku = (db, False)) \<and>
   (snd (get_stock db sku) \<noteq> None \<longrightarrow>
      snd (delete_sku db sku) = True \<and> snd (get_stock (fst (delete_sku db sku)) sku) = None)"
  by (auto simp: get_stock_def delete_sku_def select_row_delete)

theorem delete_sku_result_witness:
  "snd (get_stock [(''X'', ''Widget'', 8)] ''Y'') = None \<and>
   delete_sku [(''X'', ''Widget'', 8)] ''Y'' = ([(''X'', ''Widget'', 8)], False) \<and>
   snd (get_stock [(''X'', ''Widget'', 8)] ''X'') \<noteq> None \<and>
   snd (delete_sku [(''X'', ''Widget'', 8)] ''X'') = True \<and>
   snd (get_stock (fst (delete_sku [(''X'', ''Widget'', 8)] ''X'')) ''X'') = None"
proof -
  have present: "snd (get_stock [(''X'', ''Widget'', 8)] ''X'') \<noteq> None"
    by (simp add: get_stock_def select_row_def)
  have absent: "snd (get_stock [(''X'', ''Widget'', 8)] ''Y'') = None"
    by (simp add: get_stock_def select_row_def)
  from delete_sku_result [of "[(''X'', ''Widget'', 8)]" "''X''"]
    delete_sku_result [of "[(''X'', ''Widget'', 8)]" "''Y''"] present absent
  show ?thesis by simp
qed

section \<open>Lookup\<close>

text \<open>
  C9. A lookup leaves the table as it was. It finds no row for a SKU that is not a key
  of the table, and it returns the row of a SKU that is; keys are unique, as the
  primary key has it, in every table that calls of the helpers build from the empty
  one. A SKU that no call has added to the empty table has no row.
\<close>

theorem get_stock_result:
  "fst (get_stock db sku) = db \<and>
   (sku \<notin> fst ` set db \<longrightarrow> snd (get_stock db sku) = None) \<and>
   (distinct (map fst db) \<and> (sku, name, q) \<in> set db \<longrightarrow>
      snd (get_stock db sku) = Some (sku, name, q)) \<and>
   distinct (map fst (run [] calls)) \<and>
   ((\<forall>c \<in> set calls. \<not> inserts sku c) \<longrightarrow> snd (get_stock (run [] calls) sku) = None)"
proof -
  have "(\<forall>c \<in> set calls. \<not> inserts sku c) \<longrightarrow> select_row (run [] calls) sku = None"
    using keys_run [of calls sku "[]"] by (simp add: select_row_None_iff)
  moreover have "distinct (map fst (run [] calls))"
    using distinct_run [of "[]" calls] by simp
  ultimately show ?thesis
    by (simp add: get_stock_def select_row_None_iff select_row_distinct)
qed

theorem get_stock_result_witness:
  "fst (get_stock [(''X'', ''Widget'', 8), (''Y'', ''Gadget'', 2)] ''Y'')
     = [(''X'', ''Widget'', 8), (''Y'', ''Gadget'', 2)] \<and>
   snd (get_stock [(''X'', ''Widget'', 8), (''Y'', ''Gadget'', 2)] ''Y'') = Some (''Y'', ''Gadget'', 2) \<and>
   snd (get_stock [(''X'', ''Widget'', 8), (''Y'', ''Gadget'', 2)] ''Z'') = None \<and>
   snd (get_stock (run [] [Add_or_update ''X'' ''Widget'' 8, Reduce ''Z'' 1, Delete ''Z'']) ''Z'') = None"
proof -
  let ?db = "[(''X'', ''Widget'', 8), (''Y'', ''Gadget'', 2)]"
  from get_stock_result [of ?db "''Y''" "''Gadget''" 2 "[]"]
  have "fst (get_stock ?db ''Y'') = ?db" and "snd (get_stock ?db ''Y'') = Some (''Y'', ''Gadget'', 2)"
    by simp_all
  moreover from get_stock_result [of ?db "''Z''" "''Gadget''" 2 "[]"]
  have "snd (get_stock ?db ''Z'') = None"
    by simp
  moreover
  from get_stock_result [of "[]" "''Z''" "''Gadget''" 2
      "[Add_or_update ''X'' ''Widget'' 8, Reduce ''Z'' 1, Delete ''Z'']"]
  have "snd (get_stock (run [] [Add_or_update ''X'' ''Widget'' 8, Reduce ''Z'' 1, Delete ''Z'']) ''Z'') = None"
    by simp
  ultimately show ?thesis by simp
qed

section \<open>Enumerate\<close>

text \<open>
  C7. Listing leaves the table as it was and returns exactly its rows, in ascending
  order of SKU (strictly ascending, since keys are unique). For the empty table it
  returns the empty list, and \<^verbatim>\<open>list_cmd\<close> then answers \<^verbatim>\<open>No items in stock.\<close>, which
  is not the answer of \<^verbatim>\<open>stock_cmd\<close> for a SKU without a row. After adding "B", "A"
  and "C" to the empty table, in this order and with quantities that the column
  holds, the SKUs come back as "A", "B", "C".
\<close>

theorem list_all_sorted:
  "fst (list_all db) = db \<and>
   mset (snd (list_all db)) = mset db \<and>
   sorted (map fst (snd (list_all db))) \<and>
   (distinct (map fst db) \<longrightarrow> sorted_wrt (<) (map fst (snd (list_all db)))) \<and>
   snd (list_all []) = [] \<and>
   snd (list_cmd []) = No_items_in_stock \<and>
   snd (list_cmd []) \<noteq> snd (stock_cmd [] [sku]) \<and>
   (fits_int64 q1 \<and> fits_int64 q2 \<and> fits_int64 q3 \<longrightarrow>
      map fst (snd (list_all (run []
        [Add_or_update ''B'' n1 q1, Add_or_update ''A'' n2 q2, Add_or_update ''C'' n3 q3])))
       = [''A'', ''B'', ''C''])"
proof -
  have sorted_keys: "sorted (map fst (sort_key fst db))"
    by (rule sorted_sort_key)
  have "distinct (map fst (sort_key fst db))" if "distinct (map fst db)"
    using that by (simp add: distinct_map)
  with sorted_keys have strict: "distinct (map fst db) \<longrightarrow> sorted_wrt (<) (map fst (sort_key fst db))"
    by (simp add: strict_sorted_iff)
  have empty: "snd (list_cmd []) = No_items_in_stock"
    by (simp add: list_cmd_def list_all_def)
  have other: "snd (stock_cmd [] [sku]) = SKU_not_found_reply"
    by (simp add: stock_cmd_def get_stock_def select_row_def)
  have example: "map fst (snd (list_all (run []
      [Add_or_update ''B'' n1 q1, Add_or_update ''A'' n2 q2, Add_or_update ''C'' n3 q3])))
     = [''A'', ''B'', ''C'']"
    if "fits_int64 q1" and "fits_int64 q2" and "fits_int64 q3"
    using that
    by (simp add: list_all_def run_def add_or_update_sku_def select_row_def insert_row_def)
  show ?thesis
    using sorted_keys strict example
    by (simp add: list_all_def empty other)
qed

theorem list_all_sorted_witness:
  "snd (list_all [(''Y'', ''Gadget'', 2), (''X'', ''Widget'', 8)])
     = [(''X'', ''Widget'', 8), (''Y'', ''Gadget'', 2)] \<and>
   sorted_wrt (<) (map fst (snd (list_all [(''Y'', ''Gadget'', 2), (''X'', ''Widget'', 8)]))) \<and>
   map fst (snd (list_all (run []
        [Add_or_update ''B'' ''b'' 1, Add_or_update ''A'' ''a'' 2, Add_or_update ''C'' ''c'' 3])))
     = [''A'', ''B'', ''C'']"
proof -
  have rows: "snd (list_all [(''Y'', ''Gadget'', 2), (''X'', ''Widget'', 8)])
     = [(''X'', ''Widget'', 8), (''Y'', ''Gadget'', 2)]"
    by (simp add: list_all_def)
  from list_all_sorted [of "[(''Y'', ''Gadget'', 2), (''X'', ''Widget'', 8)]" "''A''" 1 2 3 "''b''" "''a''" "''c''"]
  have "sorted_wrt (<) (map fst (snd (list_all [(''Y'', ''Gadget'', 2), (''X'', ''Widget'', 8)])))"
    and "map fst (snd (list_all (run []
        [Add_or_update ''B'' ''b'' 1, Add_or_update ''A'' ''a'' 2, Add_or_update ''C'' ''c'' 3])))
     = [''A'', ''B'', ''C'']"
    by (simp_all add: fits_int64_def)
  with rows show ?thesis by simp
qed

section \<open>Facts about the loops\<close>















lemma entries_payload_nonempty: "entries (payload message_text) \<noteq> [] \<Longrightarrow> payload message_text \<noteq> []"
  by (auto simp: entries_def str_strip_def)


lemma sellbulk_cmd_entries:
  "entries (payload message_text) \<noteq> [] \<Longrightarrow>
   sellbulk_cmd db message_text =
     (fst (sellbulk_loop db [] (entries (payload message_text))),
      case snd (sellbulk_loop db [] (entries (payload message_text))) of
        Raise e \<Rightarrow> Raise e
      | Return results \<Rightarrow> Return (Results results))"
  using entries_payload_nonempty [of message_text]
  by (simp add: sellbulk_cmd_def Let_def split: prod.splits result.splits)

lemmas evaluate_text =
  payload_def entries_def str_partition_def str_strip_def isspace_def
  py_int_def int_space_def digits_def isdigit_def digit_value_def

lemmas evaluate_table =
  add_or_update_sku_def reduce_stock_def select_row_def insert_row_def update_qty_def
  set_qty_def fits_int64_def Let_def









section \<open>Batches\<close>




text \<open>
  C5, as the code has it. An entry of \<^verbatim>\<open>/sellbulk\<close> with two fields whose quantity field
  \<^verbatim>\<open>int\<close> rejects gets the not-a-number line, whatever the table holds, and the table
  stays as it is. Every quantity field that \<^verbatim>\<open>int\<close> accepts goes to \<^verbatim>\<open>reduce_stock\<close>,
  whose result is the line, and \<^verbatim>\<open>int\<close> accepts a minus sign: "-3" is the integer -3.
  The handler has no check of the sign.
\<close>

theorem sellbulk_entry_quantity:
  assumes "map str_strip (str_split CHR ''|'' entry) = [sku, qty_str]"
  shows "(py_int qty_str = None \<longrightarrow>
            (\<forall>db. sellbulk_entry db entry = (db, Return (Qty_not_number sku qty_str)))) \<and>
         (\<forall>qty. py_int qty_str = Some qty \<longrightarrow>
            sellbulk_entry db entry =
              (fst (reduce_stock db sku qty),
               case snd (reduce_stock db sku qty) of
                 Raise e \<Rightarrow> Raise e
               | Return (Inl res) \<Rightarrow> Return (Sell_failed sku res)
               | Return (Inr res) \<Rightarrow> Return (Sold sku qty res))) \<and>
         py_int ''-3'' = Some (- 3)"
proof -
  have "py_int ''-3'' = Some (- 3)"
    by (simp add: evaluate_text)
  with assms show ?thesis
    by (auto simp: sellbulk_entry_def Let_def split: prod.splits sum.splits result.splits)
qed

theorem sellbulk_entry_quantity_witness:
  "map str_strip (str_split CHR ''|'' ''X | -3'') = [''X'', ''-3''] \<and>
   sellbulk_entry [(''X'', ''Widget'', 8)] ''X | -3'' =
     ([(''X'', ''Widget'', 11)], Return (Sold ''X'' (- 3) 11)) \<and>
   map str_strip (str_split CHR ''|'' ''X|3.5'') = [''X'', ''3.5''] \<and>
   sellbulk_entry [(''X'', ''Widget'', 8)] ''X|3.5'' =
     ([(''X'', ''Widget'', 8)], Return (Qty_not_number ''X'' ''3.5''))"
proof -
  have fields: "map str_strip (str_split CHR ''|'' ''X | -3'') = [''X'', ''-3'']"
    by (simp add: evaluate_text)
  have fields': "map str_strip (str_split CHR ''|'' ''X|3.5'') = [''X'', ''3.5'']"
    by (simp add: evaluate_text)
  have number: "py_int ''-3'' = Some (- 3)"
    by (simp add: evaluate_text)
  have no_number: "py_int ''3.5'' = None"
    by (simp add: evaluate_text)
  have sold: "reduce_stock [(''X'', ''Widget'', 8)] ''X'' (- 3) = ([(''X'', ''Widget'', 11)], Return (Inr 11))"
    by (simp add: evaluate_table)
  from sellbulk_entry_quantity [OF fields, of "[(''X'', ''Widget'', 8)]"] number sold
  have "sellbulk_entry [(''X'', ''Widget'', 8)] ''X | -3'' =
     ([(''X'', ''Widget'', 11)], Return (Sold ''X'' (- 3) 11))"
    by simp
  moreover from sellbulk_entry_quantity [OF fields', of "[(''X'', ''Widget'', 8)]"] no_number
  have "sellbulk_entry [(''X'', ''Widget'', 8)] ''X|3.5'' =
     ([(''X'', ''Widget'', 8)], Return (Qty_not_number ''X'' ''3.5''))"
    by simp
  ultimately show ?thesis
    using fields fields' by simp
qed

text \<open>
  The claim as the specification words it fails on a negative quantity: selling "-3" of
  X from 8 is answered with the sold line, and the table holds 11 afterwards.
\<close>

theorem sellbulk_negative_quantity_counterexample:
  "sellbulk_cmd [(''X'', ''Widget'', 8)] ''/sellbulk X|-3'' =
     ([(''X'', ''Widget'', 11)], Return (Results [Sold ''X'' (- 3) 11]))"
proof -
  have parts: "entries (payload ''/sellbulk X|-3'') = [''X|-3'']"
    by (simp add: evaluate_text)
  have "sellbulk_entry [(''X'', ''Widget'', 8)] ''X|-3'' =
      ([(''X'', ''Widget'', 11)], Return (Sold ''X'' (- 3) 11))"
    by (simp add: sellbulk_entry_def evaluate_text evaluate_table)
  then show ?thesis
    using sellbulk_cmd_entries [of "''/sellbulk X|-3''" "[(''X'', ''Widget'', 8)]"]
    by (simp add: parts)
qed

section \<open>Empty batches\<close>

lemma str_strip_empty_iff: "str_strip s = [] \<longleftrightarrow> (\<forall>c \<in> set s. isspace c)"
proof
  assume "str_strip s = []"
  then have "dropWhile isspace (rev (dropWhile isspace s)) = []"
    by (simp add: str_strip_def)
  then have all: "\<forall>c \<in> set (dropWhile isspace s). isspace c"
    by (simp only: dropWhile_eq_Nil_conv set_rev)
  have "dropWhile isspace s = []"
  proof (rule ccontr)
    assume nonempty: "dropWhile isspace s \<noteq> []"
    then have "\<not> isspace (hd (dropWhile isspace s))"
      by (rule hd_dropWhile)
    moreover from nonempty all have "isspace (hd (dropWhile isspace s))"
      by simp
    ultimately show False
      by simp
  qed
  then show "\<forall>c \<in> set s. isspace c"
    by (simp only: dropWhile_eq_Nil_conv)
next
  assume "\<forall>c \<in> set s. isspace c"
  then have dropped: "dropWhile isspace s = []"
    by (simp only: dropWhile_eq_Nil_conv)
  show "str_strip s = []"
    unfolding str_strip_def dropped by simp
qed

lemma entries_empty_iff:
  "entries text = [] \<longleftrightarrow> (\<forall>p \<in> set (str_split CHR '';'' text). \<forall>c \<in> set p. isspace c)"
  by (simp add: entries_def filter_empty_conv str_strip_empty_iff)

text \<open>
  C8. The payload of a bulk command is what follows the first space of the message,
  stripped; it is empty exactly when that remainder is empty or all whitespace. On an
  empty payload both bulk handlers answer once with their usage line; on a payload
  whose pieces between semicolons are all empty or whitespace they answer once with
  \<^verbatim>\<open>No valid entries found.\<close> Neither answer is a list of lines, and in both cases
  the table is returned as it was.
\<close>

theorem bulk_empty_batch:
  "(payload message_text = [] \<longrightarrow>
      addbulk_cmd db message_text = (db, Return Usage) \<and> sellbulk_cmd db message_text = (db, Return Usage)) \<and>
   (payload message_text \<noteq> [] \<and>
    (\<forall>p \<in> set (str_split CHR '';'' (payload message_text)). \<forall>c \<in> set p. isspace c) \<longrightarrow>
      addbulk_cmd db message_text = (db, Return No_valid_entries) \<and>
      sellbulk_cmd db message_text = (db, Return No_valid_entries)) \<and>
   (payload message_text = [] \<longleftrightarrow>
      (\<forall>c \<in> set (snd (snd (str_partition CHR '' '' message_text))). isspace c))"
proof -
  have "payload message_text = [] \<longleftrightarrow>
      (\<forall>c \<in> set (snd (snd (str_partition CHR '' '' message_text))). isspace c)"
    by (simp add: payload_def str_strip_empty_iff)
  moreover have "entries (payload message_text) = []"
    if "\<forall>p \<in> set (str_split CHR '';'' (payload message_text)). \<forall>c \<in> set p. isspace c"
    using that by (simp add: entries_empty_iff)
  ultimately show ?thesis
    by (simp add: addbulk_cmd_def sellbulk_cmd_def Let_def)
qed

theorem bulk_empty_batch_witness:
  "payload ''/addbulk   '' = [] \<and>
   addbulk_cmd [(''X'', ''Widget'', 8)] ''/addbulk   '' = ([(''X'', ''Widget'', 8)], Return Usage) \<and>
   sellbulk_cmd [(''X'', ''Widget'', 8)] ''/addbulk   '' = ([(''X'', ''Widget'', 8)], Return Usage) \<and>
   payload ''/sellbulk ; ;'' = ''; ;'' \<and>
   addbulk_cmd [(''X'', ''Widget'', 8)] ''/sellbulk ; ;'' = ([(''X'', ''Widget'', 8)], Return No_valid_entries) \<and>
   sellbulk_cmd [(''X'', ''Widget'', 8)] ''/sellbulk ; ;'' = ([(''X'', ''Widget'', 8)], Return No_valid_entries)"
proof -
  have empty: "payload ''/addbulk   '' = []"
    by (simp add: evaluate_text)
  have semicolons: "payload ''/sellbulk ; ;'' = ''; ;''"
    by (simp add: evaluate_text)
  have blank: "\<forall>p \<in> set (str_split CHR '';'' ''; ;''). \<forall>c \<in> set p. isspace c"
    by (simp add: isspace_def)
  from bulk_empty_batch [of "''/addbulk   ''" "[(''X'', ''Widget'', 8)]"] empty
  have "addbulk_cmd [(''X'', ''Widget'', 8)] ''/addbulk   '' = ([(''X'', ''Widget'', 8)], Return Usage) \<and>
        sellbulk_cmd [(''X'', ''Widget'', 8)] ''/addbulk   '' = ([(''X'', ''Widget'', 8)], Return Usage)"
    by blast
  moreover
  from bulk_empty_batch [of "''/sellbulk ; ;''" "[(''X'', ''Widget'', 8)]"] semicolons blank
  have "addbulk_cmd [(''X'', ''Widget'', 8)] ''/sellbulk ; ;'' = ([(''X'', ''Widget'', 8)], Return No_valid_entries) \<and>
        sellbulk_cmd [(''X'', ''Widget'', 8)] ''/sellbulk ; ;'' = ([(''X'', ''Widget'', 8)], Return No_valid_entries)"
    by simp
  ultimately show ?thesis
    using empty semicolons by simp
qed

end
